theory Spec2Isabelle
  imports Complex_Main
begin

section \<open>JavaScript numbers\<close>

text \<open>
  The frontend computes with JavaScript numbers. A number is either finite or one of the
  three special values. Finite arithmetic is modelled over the reals: rounding to double
  precision and the sign of zero are abstracted away. A field read off an object that does
  not have it (\<^verbatim>\<open>undefined\<close>) is \<open>None\<close>.
\<close>

datatype jsnum = Num real | NaN | PInf | NInf

fun to_number :: "jsnum option \<Rightarrow> jsnum" where
  "to_number None = NaN"
| "to_number (Some x) = x"

fun js_div :: "jsnum \<Rightarrow> jsnum \<Rightarrow> jsnum" where
  "js_div (Num a) (Num b) =
     (if b = 0 then (if a = 0 then NaN else if 0 < a then PInf else NInf)
      else Num (a / b))"
| "js_div (Num a) PInf = Num 0"
| "js_div (Num a) NInf = Num 0"
| "js_div PInf (Num b) = (if 0 \<le> b then PInf else NInf)"
| "js_div NInf (Num b) = (if 0 \<le> b then NInf else PInf)"
| "js_div _ _ = NaN"

fun js_mul :: "jsnum \<Rightarrow> jsnum \<Rightarrow> jsnum" where
  "js_mul (Num a) (Num b) = Num (a * b)"
| "js_mul NaN _ = NaN"
| "js_mul _ NaN = NaN"
| "js_mul (Num a) PInf = (if a = 0 then NaN else if 0 < a then PInf else NInf)"
| "js_mul (Num a) NInf = (if a = 0 then NaN else if 0 < a then NInf else PInf)"
| "js_mul PInf (Num b) = (if b = 0 then NaN else if 0 < b then PInf else NInf)"
| "js_mul NInf (Num b) = (if b = 0 then NaN else if 0 < b then NInf else PInf)"
| "js_mul PInf PInf = PInf"
| "js_mul NInf NInf = PInf"
| "js_mul PInf NInf = NInf"
| "js_mul NInf PInf = NInf"

fun js_abs :: "jsnum \<Rightarrow> jsnum" where
  "js_abs (Num a) = Num \<bar>a\<bar>"
| "js_abs NaN = NaN"
| "js_abs PInf = PInf"
| "js_abs NInf = PInf"

text \<open>Truthiness of a number: \<^verbatim>\<open>0\<close> and \<^verbatim>\<open>NaN\<close> are falsy.\<close>

fun js_truthy :: "jsnum \<Rightarrow> bool" where
  "js_truthy (Num a) = (a \<noteq> 0)"
| "js_truthy NaN = False"
| "js_truthy PInf = True"
| "js_truthy NInf = True"

text \<open>\<^verbatim>\<open>a || b\<close> on numbers.\<close>

definition js_or :: "jsnum \<Rightarrow> jsnum \<Rightarrow> jsnum" where
  "js_or a b = (if js_truthy a then a else b)"

fun is_finite :: "jsnum \<Rightarrow> bool" where
  "is_finite (Num a) = True"
| "is_finite _ = False"


section \<open>Dashboard: the KPI figures\<close>

text \<open>
  \<^verbatim>\<open>transactionSummary\<close> starts as \<^verbatim>\<open>{}\<close> and is replaced by the body of
  \<^verbatim>\<open>GET /api/transactions/summary\<close>; any of its fields may be missing.
\<close>

record transaction_summary =
  total_income :: "jsnum option"
  total_expenses :: "jsnum option"
  net_cash_flow :: "jsnum option"

text \<open>
  \<^verbatim>\<open>const monthlyBurnRate = Math.abs(transactionSummary.total_expenses / 3) || 8000\<close>
\<close>

definition monthlyBurnRate :: "transaction_summary \<Rightarrow> jsnum" where
  "monthlyBurnRate transactionSummary =
     js_or (js_abs (js_div (to_number (total_expenses transactionSummary)) (Num 3))) (Num 8000)"

text \<open>
  The burn rate as the specification words it: the average of \<open>\<bar>total_expenses\<bar>\<close> over the
  number of whole months spanned by the history, the denominator being at least 1.
\<close>

definition spec_monthly_burn_rate :: "real \<Rightarrow> nat \<Rightarrow> real" where
  "spec_monthly_burn_rate expenses months = \<bar>expenses\<bar> / real (max 1 months)"

text \<open>
  Modelled from the spec: the baseline comparison of a simulation result is computed by
  the backend's simulator, which is not among the sources; the frontend only prints the
  \<^verbatim>\<open>improvement_percentage\<close> it receives. Section 4.3 of the specification:
  (scenario.final_balance - baseline.final_balance) / |baseline.final_balance| * 100, with
  a defined result of 0 when baseline.final_balance is 0.
\<close>

definition improvement_percentage :: "real \<Rightarrow> real \<Rightarrow> jsnum" where
  "improvement_percentage scenario_final baseline_final =
     (if baseline_final = 0 then Num 0
      else js_mul (js_div (Num (scenario_final - baseline_final)) (Num \<bar>baseline_final\<bar>))
             (Num 100))"


section \<open>ScenarioSimulator: the parameter state\<close>

record parameters =
  revenue_change_percent :: real
  expense_change_percent :: real
  one_time_income :: real
  one_time_expense :: real
  days_ahead :: real
  scenario_name :: string

text \<open>
  A preset comes from \<^verbatim>\<open>GET /api/simulate/presets\<close>. Its \<^verbatim>\<open>parameters\<close> object is
  spread over the current parameters, so it overrides exactly the fields it carries.
\<close>

record preset_parameters =
  p_revenue_change_percent :: "real option"
  p_expense_change_percent :: "real option"
  p_one_time_income :: "real option"
  p_one_time_expense :: "real option"
  p_days_ahead :: "real option"
  p_scenario_name :: "string option"

record preset =
  preset_name :: string
  preset_description :: string
  preset_params :: preset_parameters

record simulator =
  params :: parameters
  presets :: "preset list"

definition initial_parameters :: parameters where
  "initial_parameters =
     \<lparr>revenue_change_percent = 0, expense_change_percent = 0, one_time_income = 0,
      one_time_expense = 0, days_ahead = 90, scenario_name = ''Custom Scenario''\<rparr>"

definition initial_simulator :: simulator where
  "initial_simulator = \<lparr>params = initial_parameters, presets = []\<rparr>"

text \<open>\<^verbatim>\<open>{...parameters, ...preset.parameters}\<close>\<close>

definition override :: "'a \<Rightarrow> 'a option \<Rightarrow> 'a" where
  "override old new = (case new of None \<Rightarrow> old | Some v \<Rightarrow> v)"

definition applyPreset :: "preset \<Rightarrow> parameters \<Rightarrow> parameters" where
  "applyPreset p ps =
     (let q = preset_params p in
      \<lparr>revenue_change_percent = override (revenue_change_percent ps) (p_revenue_change_percent q),
       expense_change_percent = override (expense_change_percent ps) (p_expense_change_percent q),
       one_time_income = override (one_time_income ps) (p_one_time_income q),
       one_time_expense = override (one_time_expense ps) (p_one_time_expense q),
       days_ahead = override (days_ahead ps) (p_days_ahead q),
       scenario_name = override (scenario_name ps) (p_scenario_name q)\<rparr>)"

definition resetParameters :: parameters where
  "resetParameters = initial_parameters"

text \<open>
  The two sliders are \<^verbatim>\<open><input type="range" min="-50" max="100" step="5">\<close>. The browser
  only ever reports a value on the step grid between \<open>min\<close> and \<open>max\<close>: the thumb position
  \<open>k\<close> counts steps from \<open>min\<close> and stops at the last step that fits.
\<close>

definition range_value :: "real \<Rightarrow> real \<Rightarrow> real \<Rightarrow> nat \<Rightarrow> real" where
  "range_value lo hi stp k = lo + stp * real (min k (nat \<lfloor>(hi - lo) / stp\<rfloor>))"

definition slider_value :: "nat \<Rightarrow> real" where
  "slider_value k = range_value (-50) 100 5 k"

text \<open>
  The one-time fields are \<^verbatim>\<open><input type="number">\<close> without \<open>min\<close> or \<open>max\<close>. The text of
  the field is given as \<^verbatim>\<open>parseFloat\<close> reads it: \<open>Some a\<close> for a number, \<open>None\<close> for an
  empty or unreadable field (\<^verbatim>\<open>NaN\<close>). The handler stores \<^verbatim>\<open>parseFloat(e.target.value) || 0\<close>.
\<close>

definition parseFloat :: "real option \<Rightarrow> jsnum" where
  "parseFloat txt = (case txt of None \<Rightarrow> NaN | Some a \<Rightarrow> Num a)"

definition number_or_zero :: "real option \<Rightarrow> real" where
  "number_or_zero txt = (case js_or (parseFloat txt) (Num 0) of Num a \<Rightarrow> a | _ \<Rightarrow> 0)"

datatype event =
    PresetsLoaded "preset list"
  | RevenueSlider nat
  | ExpenseSlider nat
  | OneTimeIncomeInput "real option"
  | OneTimeExpenseInput "real option"
  | PresetButton nat
  | ResetButton
  | RunSimulationButton

text \<open>Buttons exist for \<^verbatim>\<open>presets.slice(0, 4)\<close> only.\<close>

fun handle :: "simulator \<Rightarrow> event \<Rightarrow> simulator" where
  "handle s (PresetsLoaded ps) = s\<lparr>presets := ps\<rparr>"
| "handle s (RevenueSlider k) =
     s\<lparr>params := (params s)\<lparr>revenue_change_percent := slider_value k\<rparr>\<rparr>"
| "handle s (ExpenseSlider k) =
     s\<lparr>params := (params s)\<lparr>expense_change_percent := slider_value k\<rparr>\<rparr>"
| "handle s (OneTimeIncomeInput txt) =
     s\<lparr>params := (params s)\<lparr>one_time_income := number_or_zero txt\<rparr>\<rparr>"
| "handle s (OneTimeExpenseInput txt) =
     s\<lparr>params := (params s)\<lparr>one_time_expense := number_or_zero txt\<rparr>\<rparr>"
| "handle s (PresetButton i) =
     (if i < length (take 4 (presets s))
      then s\<lparr>params := applyPreset (take 4 (presets s) ! i) (params s)\<rparr>
      else s)"
| "handle s ResetButton = s\<lparr>params := resetParameters\<rparr>"
| "handle s RunSimulationButton = s"

text \<open>\<^verbatim>\<open>runSimulation\<close> posts the current parameters to \<^verbatim>\<open>/api/simulate\<close>.\<close>

fun requests :: "simulator \<Rightarrow> event \<Rightarrow> parameters list" where
  "requests s RunSimulationButton = [params s]"
| "requests s _ = []"

fun run :: "simulator \<Rightarrow> event list \<Rightarrow> simulator" where
  "run s [] = s"
| "run s (e # es) = run (handle s e) es"

fun sent :: "simulator \<Rightarrow> event list \<Rightarrow> parameters list" where
  "sent s [] = []"
| "sent s (e # es) = requests s e @ sent (handle s e) es"

text \<open>What the events of a session bring in from outside the component.\<close>

definition preset_days_ok :: "preset \<Rightarrow> bool" where
  "preset_days_ok p =
     (case p_days_ahead (preset_params p) of None \<Rightarrow> True | Some d \<Rightarrow> 0 < d \<and> d \<le> 365)"

definition percent_ok :: "real \<Rightarrow> bool" where
  "percent_ok x = (-50 \<le> x \<and> x \<le> 100)"

definition preset_percent_ok :: "preset \<Rightarrow> bool" where
  "preset_percent_ok p =
     ((case p_revenue_change_percent (preset_params p) of None \<Rightarrow> True | Some x \<Rightarrow> percent_ok x) \<and>
      (case p_expense_change_percent (preset_params p) of None \<Rightarrow> True | Some x \<Rightarrow> percent_ok x))"

definition preset_one_time_ok :: "preset \<Rightarrow> bool" where
  "preset_one_time_ok p =
     ((case p_one_time_income (preset_params p) of None \<Rightarrow> True | Some x \<Rightarrow> 0 \<le> x) \<and>
      (case p_one_time_expense (preset_params p) of None \<Rightarrow> True | Some x \<Rightarrow> 0 \<le> x))"

fun loads :: "(preset \<Rightarrow> bool) \<Rightarrow> event \<Rightarrow> bool" where
  "loads ok (PresetsLoaded ps) = list_all ok (take 4 ps)"
| "loads ok _ = True"

fun entry_nonneg :: "event \<Rightarrow> bool" where
  "entry_nonneg (OneTimeIncomeInput txt) = (case txt of None \<Rightarrow> True | Some a \<Rightarrow> 0 \<le> a)"
| "entry_nonneg (OneTimeExpenseInput txt) = (case txt of None \<Rightarrow> True | Some a \<Rightarrow> 0 \<le> a)"
| "entry_nonneg _ = True"

text \<open>The clicks that apply a preset.\<close>

fun preset_button :: "event \<Rightarrow> bool" where
  "preset_button (PresetButton i) = True"
| "preset_button _ = False"

text \<open>Invariants of the parameter state, and of the presets a button can apply.\<close>

definition sim_inv :: "(parameters \<Rightarrow> bool) \<Rightarrow> (preset \<Rightarrow> bool) \<Rightarrow> simulator \<Rightarrow> bool" where
  "sim_inv P ok s = (P (params s) \<and> list_all ok (take 4 (presets s)))"

definition days_ok :: "parameters \<Rightarrow> bool" where
  "days_ok ps = (0 < days_ahead ps \<and> days_ahead ps \<le> 365)"

definition percents_ok :: "parameters \<Rightarrow> bool" where
  "percents_ok ps = (percent_ok (revenue_change_percent ps) \<and> percent_ok (expense_change_percent ps))"

definition one_time_ok :: "parameters \<Rightarrow> bool" where
  "one_time_ok ps = (0 \<le> one_time_income ps \<and> 0 \<le> one_time_expense ps)"


section \<open>Transactions page\<close>

text \<open>
  A transaction as the table receives it from \<^verbatim>\<open>GET /api/transactions\<close>. The Xero id
  is \<open>None\<close> when the field is \<^verbatim>\<open>null\<close> or missing.
\<close>

record transaction =
  tid :: nat
  t_date :: string
  t_description :: string
  t_amount :: real
  t_type :: string
  t_category :: "string option"
  t_contact_name :: "string option"
  xero_id :: "string option"

text \<open>Truthiness of a string that may be missing: the empty string is falsy.\<close>

fun truthy_string :: "string option \<Rightarrow> bool" where
  "truthy_string None = False"
| "truthy_string (Some s) = (s \<noteq> [])"

datatype button = DeleteButton nat

datatype table_row = SkeletonRow | NoTransactionsRow | TransactionRow transaction "button list"

text \<open>The actions cell: \<^verbatim>\<open>{!transaction.xero_id && (<button ...>Delete</button>)}\<close>\<close>

definition actions_cell :: "transaction \<Rightarrow> button list" where
  "actions_cell t = (if \<not> truthy_string (xero_id t) then [DeleteButton (tid t)] else [])"

definition tbody :: "bool \<Rightarrow> transaction list \<Rightarrow> table_row list" where
  "tbody loading transactions =
     (if loading then replicate 5 SkeletonRow
      else if length transactions = 0 then [NoTransactionsRow]
      else map (\<lambda>t. TransactionRow t (actions_cell t)) transactions)"

text \<open>
  \<^verbatim>\<open>deleteTransaction(id)\<close> asks for confirmation, calls
  \<^verbatim>\<open>DELETE /api/transactions/{id}\<close> and, when that succeeded, reloads the list; a
  failure is caught and reported. The result is the list of API calls made. The only caller
  is the row's button.
\<close>

datatype api_call = ApiDelete nat | ApiGetAll

definition deleteTransaction :: "bool \<Rightarrow> bool \<Rightarrow> nat \<Rightarrow> api_call list" where
  "deleteTransaction confirmed succeeded i =
     (if \<not> confirmed then []
      else if succeeded then [ApiDelete i, ApiGetAll]
      else [ApiDelete i])"

fun click :: "bool \<Rightarrow> bool \<Rightarrow> button \<Rightarrow> api_call list" where
  "click confirmed succeeded (DeleteButton i) = deleteTransaction confirmed succeeded i"

text \<open>A transaction is manual when it carries no Xero id (none at all, or an empty one).\<close>

definition is_manual :: "transaction \<Rightarrow> bool" where
  "is_manual t = (xero_id t = None \<or> xero_id t = Some [])"

text \<open>
  The add-transaction form. The amount field is \<^verbatim>\<open><input type="number">\<close>, read with
  \<^verbatim>\<open>parseFloat\<close>. The date field is \<^verbatim>\<open><input type="date">\<close>: its value is a date
  \<^verbatim>\<open>yyyy-mm-dd\<close>, or \<open>None\<close> when the field is empty.
\<close>

record new_transaction =
  n_date :: "string option"
  n_description :: string
  n_amount :: "real option"
  n_type :: string
  n_category :: string
  n_account_name :: string
  n_contact_name :: string

record transaction_data =
  d_date :: string
  d_description :: string
  d_amount :: jsnum
  d_type :: string
  d_category :: string
  d_account_name :: string
  d_contact_name :: string

datatype js_error = RangeError

text \<open>
  \<^verbatim>\<open>new Date(date).toISOString()\<close>: a date without a time is midnight UTC; the empty
  string is an invalid date, on which \<^verbatim>\<open>toISOString\<close> throws a RangeError.
\<close>

definition toISOString :: "string option \<Rightarrow> js_error + string" where
  "toISOString date =
     (case date of None \<Rightarrow> Inl RangeError | Some d \<Rightarrow> Inr (d @ ''T00:00:00.000Z''))"

text \<open>
  \<^verbatim>\<open>amount: parseFloat(newTransaction.amount) * (newTransaction.type === 'expense' ? -1 : 1)\<close>.
  The result is what \<^verbatim>\<open>transactionService.create\<close> is called with, or the exception that
  sends \<^verbatim>\<open>addTransaction\<close> to its \<^verbatim>\<open>catch\<close> before anything is posted.
\<close>

definition addTransaction :: "new_transaction \<Rightarrow> js_error + transaction_data" where
  "addTransaction newTransaction =
     (let amount = js_mul (parseFloat (n_amount newTransaction))
                     (if n_type newTransaction = ''expense'' then Num (- 1) else Num 1)
      in case toISOString (n_date newTransaction) of
           Inl e \<Rightarrow> Inl e
         | Inr d \<Rightarrow>
             Inr \<lparr>d_date = d, d_description = n_description newTransaction, d_amount = amount,
                  d_type = n_type newTransaction, d_category = n_category newTransaction,
                  d_account_name = n_account_name newTransaction,
                  d_contact_name = n_contact_name newTransaction\<rparr>)"


section \<open>The API client and its response interceptor\<close>

datatype json =
    JNull
  | JBool bool
  | JNum real
  | JStr string
  | JArr "json list"
  | JObj "(string \<times> json) list"

record response =
  status :: nat
  data :: json

text \<open>
  An axios error carries the response when the server answered, and none on a network
  failure or timeout.
\<close>

record axios_error =
  err_response :: "response option"
  err_message :: string

datatype outcome = Fulfilled response | Rejected axios_error

text \<open>
  The client is created without \<^verbatim>\<open>validateStatus\<close>, so axios settles a response by its
  default: a status from 200 to 299 fulfils the promise, any other rejects it with an error
  holding the response.
\<close>

definition settle :: "response \<Rightarrow> outcome" where
  "settle r =
     (if 200 \<le> status r \<and> status r < 300 then Fulfilled r
      else Rejected \<lparr>err_response = Some r,
             err_message = ''Request failed with status code''\<rparr>)"

record browser =
  localStorage :: "string \<rightharpoonup> string"
  location_href :: string

text \<open>\<^verbatim>\<open>error.response?.status\<close>\<close>

definition response_status :: "axios_error \<Rightarrow> nat option" where
  "response_status error = map_option status (err_response error)"

text \<open>The two handlers given to \<^verbatim>\<open>api.interceptors.response.use\<close>.\<close>

definition on_response :: "browser \<Rightarrow> response \<Rightarrow> browser \<times> outcome" where
  "on_response b r = (b, Fulfilled r)"

definition on_response_error :: "browser \<Rightarrow> axios_error \<Rightarrow> browser \<times> outcome" where
  "on_response_error b error =
     (let b' = (if response_status error = Some 401
                then b\<lparr>localStorage := (localStorage b)(''token'' := None),
                       location_href := ''/login''\<rparr>
                else b)
      in (b', Rejected error))"

fun response_interceptor :: "browser \<Rightarrow> outcome \<Rightarrow> browser \<times> outcome" where
  "response_interceptor b (Fulfilled r) = on_response b r"
| "response_interceptor b (Rejected error) = on_response_error b error"


section \<open>AuthContext: the Xero connection status\<close>

text \<open>\<^verbatim>\<open>await\<close>: a fulfilled promise gives its value, a rejected one throws.\<close>

fun await :: "outcome \<Rightarrow> axios_error + response" where
  "await (Fulfilled r) = Inr r"
| "await (Rejected error) = Inl error"

text \<open>\<^verbatim>\<open>try { ... } catch (error) { ... }\<close>\<close>

definition try_catch :: "('e + 'a) \<Rightarrow> ('e \<Rightarrow> 'e + 'a) \<Rightarrow> 'e + 'a" where
  "try_catch body handler = (case body of Inl e \<Rightarrow> handler e | Inr v \<Rightarrow> Inr v)"

text \<open>
  \<^verbatim>\<open>getXeroStatus\<close>, given how \<^verbatim>\<open>api.get('/auth/xero/status')\<close> settles. The handler logs
  to the console and returns \<^verbatim>\<open>{ is_connected: false }\<close>.
\<close>

definition getXeroStatus :: "outcome \<Rightarrow> axios_error + json" where
  "getXeroStatus settled =
     try_catch
       (case await settled of Inl e \<Rightarrow> Inl e | Inr response \<Rightarrow> Inr (data response))
       (\<lambda>error. Inr (JObj [(''is_connected'', JBool False)]))"


section \<open>Forecast model\<close>

text \<open>
  The series the forecast reads and the points it produces, as section 3 of the
  specification lists them. Dates are day numbers.
\<close>

record daily_point =
  dp_date :: int
  net_amount :: real
  cumulative_balance :: real

record forecast_point =
  fp_date :: int
  predicted_balance :: real
  predicted_income :: real
  predicted_expenses :: real
  confidence_lower :: "real option"
  confidence_upper :: "real option"

record forecast_output =
  forecast_points :: "forecast_point list"
  low_data :: bool

datatype forecast_error = InvalidParameterError

datatype model_kind = Primary | Fallback

text \<open>
  Modelled from the spec: the last known date and balance of a history, which the backend
  (not among the sources) reads off the series. For a history with points they are those of
  its last point. The specification does not say what they are for an empty history: here
  they are the \<open>seed\<close>, the day and the starting balance the running sum begins from.
\<close>

definition last_known :: "int \<times> real \<Rightarrow> daily_point list \<Rightarrow> int \<times> real" where
  "last_known seed history =
     (case history of
        [] \<Rightarrow> seed
      | _ # _ \<Rightarrow> (dp_date (last history), cumulative_balance (last history)))"

text \<open>
  Modelled from the spec: one point of the flat projection of section 4.2, which the
  backend (not among the sources) produces: the predicted balance is the last known
  balance and the confidence bounds, where asked for, equal the point estimate. A flat
  balance has no flow, so projected income and expenses are 0.
\<close>

definition flat_point :: "int \<times> real \<Rightarrow> bool \<Rightarrow> nat \<Rightarrow> forecast_point" where
  "flat_point known with_confidence i =
     \<lparr>fp_date = fst known + int i, predicted_balance = snd known,
      predicted_income = 0, predicted_expenses = 0,
      confidence_lower = (if with_confidence then Some (snd known) else None),
      confidence_upper = (if with_confidence then Some (snd known) else None)\<rparr>"

text \<open>
  Modelled from the spec: the flat projection of section 4.2 (backend, not among the
  sources), one point for each of the \<open>n\<close> days after the last known date, in date order.
\<close>

definition flat_projection :: "int \<times> real \<Rightarrow> bool \<Rightarrow> nat \<Rightarrow> forecast_point list" where
  "flat_projection known with_confidence n = map (flat_point known with_confidence) [1..<Suc n]"

text \<open>
  Modelled from the spec: a point without its optional confidence bounds, for a forecast
  requested without them (backend, not among the sources).
\<close>

definition without_bounds :: "forecast_point \<Rightarrow> forecast_point" where
  "without_bounds p = p\<lparr>confidence_lower := None, confidence_upper := None\<rparr>"

text \<open>
  Modelled from the spec: \<^verbatim>\<open>forecast\<close> belongs to the backend, which is not among the
  sources; the frontend only requests and draws its output. The model follows sections 4.2
  and 7 of the specification: a \<open>days_ahead\<close> (written \<open>horizon\<close> here) that is not
  positive is rejected; with fewer than 2 historical points the result is the flat
  projection, flagged as low-data; otherwise the chosen strategy produces the points, the
  primary one falling back to the deterministic one when it fails to fit. The two fitting
  strategies are parameters, the specification leaving their coefficients open.
\<close>

definition forecast ::
  "(daily_point list \<Rightarrow> nat \<Rightarrow> forecast_point list option) \<Rightarrow>
   (daily_point list \<Rightarrow> nat \<Rightarrow> forecast_point list) \<Rightarrow>
   int \<times> real \<Rightarrow> daily_point list \<Rightarrow> int \<Rightarrow> model_kind \<Rightarrow> bool \<Rightarrow>
   forecast_error + forecast_output" where
  "forecast fit_primary fit_fallback seed history horizon model with_confidence =
     (if horizon \<le> 0 then Inl InvalidParameterError
      else if length history < 2 then
        Inr \<lparr>forecast_points =
               flat_projection (last_known seed history) with_confidence (nat horizon),
             low_data = True\<rparr>
      else
        (let fitted =
               (case model of
                  Primary \<Rightarrow>
                    (case fit_primary history (nat horizon) of
                       Some ps \<Rightarrow> ps
                     | None \<Rightarrow> fit_fallback history (nat horizon))
                | Fallback \<Rightarrow> fit_fallback history (nat horizon))
         in Inr \<lparr>forecast_points =
                   (if with_confidence then fitted else map without_bounds fitted),
                 low_data = False\<rparr>))"


section \<open>Sample data\<close>

definition quarter_summary :: transaction_summary where
  "quarter_summary =
     \<lparr>total_income = Some (Num 9000), total_expenses = Some (Num (- 6000)),
      net_cash_flow = Some (Num 3000)\<rparr>"

definition idle_summary :: transaction_summary where
  "idle_summary =
     \<lparr>total_income = Some (Num 0), total_expenses = Some (Num 0), net_cash_flow = Some (Num 0)\<rparr>"

definition empty_summary :: transaction_summary where
  "empty_summary = \<lparr>total_income = None, total_expenses = None, net_cash_flow = None\<rparr>"

definition two_year_outlook :: preset where
  "two_year_outlook =
     \<lparr>preset_name = ''Two-year outlook'', preset_description = ''Long horizon'',
      preset_params = \<lparr>p_revenue_change_percent = None, p_expense_change_percent = None,
        p_one_time_income = None, p_one_time_expense = None, p_days_ahead = Some 730,
        p_scenario_name = None\<rparr>\<rparr>"

definition hypergrowth :: preset where
  "hypergrowth =
     \<lparr>preset_name = ''Hypergrowth'', preset_description = ''Revenue triples'',
      preset_params = \<lparr>p_revenue_change_percent = Some 200, p_expense_change_percent = None,
        p_one_time_income = None, p_one_time_expense = None, p_days_ahead = None,
        p_scenario_name = Some ''Hypergrowth''\<rparr>\<rparr>"

definition cost_cutting :: preset where
  "cost_cutting =
     \<lparr>preset_name = ''Cost cutting'', preset_description = ''Expenses down by a fifth'',
      preset_params = \<lparr>p_revenue_change_percent = Some 0, p_expense_change_percent = Some (- 20),
        p_one_time_income = Some 0, p_one_time_expense = Some 0, p_days_ahead = Some 90,
        p_scenario_name = Some ''Cost cutting''\<rparr>\<rparr>"

definition session :: "event list" where
  "session =
     [PresetsLoaded [cost_cutting], RevenueSlider 40, OneTimeIncomeInput (Some 2500),
      RunSimulationButton, PresetButton 0, ExpenseSlider 3, OneTimeExpenseInput None,
      RunSimulationButton, ResetButton, RunSimulationButton]"

definition rent :: transaction where
  "rent = \<lparr>tid = 1, t_date = ''2024-01-05'', t_description = ''Office rent'',
     t_amount = - 1200, t_type = ''expense'', t_category = Some ''Rent'',
     t_contact_name = None, xero_id = None\<rparr>"

definition invoice :: transaction where
  "invoice = \<lparr>tid = 2, t_date = ''2024-01-09'', t_description = ''Invoice 17'',
     t_amount = 5400, t_type = ''income'', t_category = None,
     t_contact_name = Some ''Acme'', xero_id = Some ''xero-17''\<rparr>"

definition coffee_form :: new_transaction where
  "coffee_form = \<lparr>n_date = Some ''2024-02-01'', n_description = ''Coffee'',
     n_amount = Some 12.5, n_type = ''expense'', n_category = [],
     n_account_name = [], n_contact_name = []\<rparr>"

definition refund_form :: new_transaction where
  "refund_form = \<lparr>n_date = Some ''2024-02-03'', n_description = ''Refund'',
     n_amount = Some (- 5), n_type = ''expense'', n_category = [],
     n_account_name = [], n_contact_name = []\<rparr>"

definition signed_in :: browser where
  "signed_in = \<lparr>localStorage = [''token'' \<mapsto> ''abc''], location_href = ''/dashboard''\<rparr>"

definition opening_day :: daily_point where
  "opening_day = \<lparr>dp_date = 19700, net_amount = 1000, cumulative_balance = 1000\<rparr>"


section \<open>Properties\<close>

subsection \<open>Dashboard\<close>

lemma js_or_finite: "is_finite b \<Longrightarrow> a \<noteq> PInf \<Longrightarrow> a \<noteq> NInf \<Longrightarrow> is_finite (js_or a b)"
  by (cases a) (simp_all add: js_or_def)

lemma js_abs_div_finite:
  "b \<noteq> 0 \<Longrightarrow> a \<noteq> PInf \<Longrightarrow> a \<noteq> NInf \<Longrightarrow>
   js_abs (js_div a (Num b)) \<noteq> PInf \<and> js_abs (js_div a (Num b)) \<noteq> NInf"
  by (cases a) simp_all

text \<open>
  Claim C1, as amended. The monthly burn rate the dashboard displays is
  \<open>\<bar>total_expenses\<bar> / 3\<close>: the divisor is the constant 3, whatever span the history has.
  When \<open>total_expenses\<close> is missing, not a number or 0, the figure displayed is the
  placeholder 8000.
\<close>

theorem monthlyBurnRate_fixed_divisor:
  "monthlyBurnRate s =
     (case total_expenses s of
        None \<Rightarrow> Num 8000
      | Some NaN \<Rightarrow> Num 8000
      | Some (Num x) \<Rightarrow> (if x = 0 then Num 8000 else Num (\<bar>x\<bar> / 3))
      | Some PInf \<Rightarrow> PInf
      | Some NInf \<Rightarrow> PInf)"
  by (cases "total_expenses s" rule: to_number.cases)
     (auto simp: monthlyBurnRate_def js_or_def split: jsnum.split)

theorem monthlyBurnRate_fixed_divisor_witness:
  "monthlyBurnRate quarter_summary = Num 2000 \<and> monthlyBurnRate empty_summary = Num 8000"
  using monthlyBurnRate_fixed_divisor [of quarter_summary]
    monthlyBurnRate_fixed_divisor [of empty_summary]
  by (simp add: quarter_summary_def empty_summary_def)

text \<open>
  Claim C1 as stated fails. A history of one month with expenses of 6000 has a burn rate
  of 6000 by the claim and is displayed as 2000; a history without expenses has a burn
  rate of 0 by the claim and is displayed as 8000.
\<close>

theorem monthlyBurnRate_months_counterexample:
  "monthlyBurnRate quarter_summary = Num 2000
   \<and> total_expenses quarter_summary = Some (Num (- 6000))
   \<and> spec_monthly_burn_rate (- 6000) 1 = 6000
   \<and> monthlyBurnRate idle_summary = Num 8000
   \<and> total_expenses idle_summary = Some (Num 0)
   \<and> spec_monthly_burn_rate 0 1 = 0"
  by (simp add: monthlyBurnRate_def js_or_def spec_monthly_burn_rate_def
      quarter_summary_def idle_summary_def)

text \<open>
  Claim C3. No ratio the dashboard shows is \<^verbatim>\<open>NaN\<close> or infinite through a zero
  denominator. The burn rate divides by the constant 3 and replaces a \<^verbatim>\<open>NaN\<close> by a
  number, so it is finite for every summary whose \<open>total_expenses\<close> is missing,
  \<^verbatim>\<open>NaN\<close> or finite. The improvement percentage against a baseline whose final balance
  is 0 is the sentinel 0, and it is finite for every baseline.
\<close>

theorem ratios_never_nan_or_infinite:
  "(total_expenses s \<noteq> Some PInf \<and> total_expenses s \<noteq> Some NInf \<longrightarrow>
      is_finite (monthlyBurnRate s))
   \<and> improvement_percentage x 0 = Num 0
   \<and> is_finite (improvement_percentage x b)"
proof -
  have "is_finite (monthlyBurnRate s)"
    if "total_expenses s \<noteq> Some PInf" and "total_expenses s \<noteq> Some NInf"
  proof -
    from that have "to_number (total_expenses s) \<noteq> PInf" "to_number (total_expenses s) \<noteq> NInf"
      by (cases "total_expenses s"; simp)+
    then show ?thesis
      unfolding monthlyBurnRate_def
      by (intro js_or_finite) (simp_all add: js_abs_div_finite)
  qed
  moreover have "improvement_percentage x 0 = Num 0"
    by (simp add: improvement_percentage_def)
  moreover have "is_finite (improvement_percentage x b)"
    by (simp add: improvement_percentage_def)
  ultimately show ?thesis
    by blast
qed

theorem ratios_never_nan_or_infinite_witness:
  "total_expenses empty_summary \<noteq> Some PInf \<and> total_expenses empty_summary \<noteq> Some NInf
   \<and> is_finite (monthlyBurnRate empty_summary)
   \<and> improvement_percentage 1500 0 = Num 0
   \<and> is_finite (improvement_percentage 1500 0)"
proof -
  have h: "total_expenses empty_summary \<noteq> Some PInf \<and> total_expenses empty_summary \<noteq> Some NInf"
    by (simp add: empty_summary_def)
  with ratios_never_nan_or_infinite [of empty_summary 1500 0] show ?thesis
    by blast
qed


subsection \<open>Forecast\<close>

lemma flat_projection_length: "length (flat_projection known c n) = n"
  by (simp add: flat_projection_def)

lemma flat_projection_points:
  "p \<in> set (flat_projection known c n) \<Longrightarrow>
   predicted_balance p = snd known \<and>
   confidence_lower p = (if c then Some (snd known) else None) \<and>
   confidence_upper p = (if c then Some (snd known) else None)"
  by (auto simp: flat_projection_def flat_point_def)

text \<open>
  Claim C2. For a history of fewer than 2 points and a positive \<open>days_ahead\<close>, the
  forecast does not fail: it returns a series flagged as low-data, of exactly
  \<open>days_ahead\<close> points, each predicting the last known balance, with confidence bounds
  (where the caller asked for them) equal to that point estimate.
\<close>

theorem forecast_low_data_flat:
  assumes "length history < 2" and "0 < horizon"
  shows "\<exists>out.
      forecast fit_primary fit_fallback seed history horizon model with_confidence = Inr out
    \<and> low_data out
    \<and> int (length (forecast_points out)) = horizon
    \<and> (\<forall>p \<in> set (forecast_points out).
         predicted_balance p = snd (last_known seed history)
         \<and> confidence_lower p = (if with_confidence then Some (predicted_balance p) else None)
         \<and> confidence_upper p = (if with_confidence then Some (predicted_balance p) else None))"
  using assms
  by (simp add: forecast_def flat_projection_length flat_projection_points)

theorem forecast_low_data_flat_witness:
  "length [opening_day] < 2 \<and> (0 :: int) < 3
   \<and> (\<exists>out. forecast (\<lambda>h n. None) (\<lambda>h n. []) (0, 0) [opening_day] 3 Primary True = Inr out
        \<and> low_data out
        \<and> map fp_date (forecast_points out) = [19701, 19702, 19703]
        \<and> map predicted_balance (forecast_points out) = [1000, 1000, 1000]
        \<and> map confidence_lower (forecast_points out) = [Some 1000, Some 1000, Some 1000]
        \<and> map confidence_upper (forecast_points out) = [Some 1000, Some 1000, Some 1000])"
proof -
  have len: "length [opening_day] < 2" and pos: "(0 :: int) < 3"
    by simp_all
  from forecast_low_data_flat [OF len pos, of "\<lambda>h n. None" "\<lambda>h n. []" "(0, 0)" Primary True]
  obtain out where
    out: "forecast (\<lambda>h n. None) (\<lambda>h n. []) (0, 0) [opening_day] 3 Primary True = Inr out"
    and low: "low_data out"
    by blast
  have three: "[Suc 0..<4] = [1, 2, 3]"
    by (simp add: upt_conv_Cons)
  from out have "forecast_points out = flat_projection (19700, 1000) True 3"
    by (auto simp: forecast_def last_known_def opening_day_def)
  then have
    "map fp_date (forecast_points out) = [19701, 19702, 19703]"
    "map predicted_balance (forecast_points out) = [1000, 1000, 1000]"
    "map confidence_lower (forecast_points out) = [Some 1000, Some 1000, Some 1000]"
    "map confidence_upper (forecast_points out) = [Some 1000, Some 1000, Some 1000]"
    by (simp_all add: flat_projection_def flat_point_def three)
  with len pos out low show ?thesis
    by simp
qed


subsection \<open>ScenarioSimulator\<close>

lemma slider_value_bounds: "percent_ok (slider_value k)"
  by (simp add: slider_value_def range_value_def percent_ok_def min_def)

lemma number_or_zero_eq: "number_or_zero txt = (case txt of None \<Rightarrow> 0 | Some a \<Rightarrow> a)"
  by (simp add: number_or_zero_def parseFloat_def js_or_def split: option.split)

text \<open>
  An invariant of the parameters is kept by every event when a preset that may be applied
  keeps it and every other handler keeps it.
\<close>

lemma handle_sim_inv:
  assumes preset: "\<And>p ps. ok p \<Longrightarrow> P ps \<Longrightarrow> P (applyPreset p ps)"
    and other: "\<And>s. P (params s) \<Longrightarrow> good e \<Longrightarrow> P (params (handle s e)) \<or> (\<exists>i. e = PresetButton i)"
    and inv: "sim_inv P ok s"
    and e: "loads ok e" "good e"
  shows "sim_inv P ok (handle s e)"
proof (cases e)
  case (PresetButton i)
  show ?thesis
  proof (cases "i < length (take 4 (presets s))")
    case True
    with inv have "ok (take 4 (presets s) ! i)"
      unfolding sim_inv_def list_all_length by blast
    with inv have "P (applyPreset (take 4 (presets s) ! i) (params s))"
      by (simp add: preset sim_inv_def)
    with inv True PresetButton show ?thesis
      by (simp add: sim_inv_def)
  next
    case False
    with inv PresetButton show ?thesis by auto
  qed
next
  case (PresetsLoaded ps)
  with inv e show ?thesis by (simp add: sim_inv_def)
next
  case (RevenueSlider k)
  with other [of s] inv e show ?thesis by (simp add: sim_inv_def)
next
  case (ExpenseSlider k)
  with other [of s] inv e show ?thesis by (simp add: sim_inv_def)
next
  case (OneTimeIncomeInput t)
  with other [of s] inv e show ?thesis by (simp add: sim_inv_def)
next
  case (OneTimeExpenseInput t)
  with other [of s] inv e show ?thesis by (simp add: sim_inv_def)
next
  case ResetButton
  with other [of s] inv e show ?thesis by (simp add: sim_inv_def)
next
  case RunSimulationButton
  with inv show ?thesis by simp
qed

lemma run_sim_inv:
  assumes preset: "\<And>p ps. ok p \<Longrightarrow> P ps \<Longrightarrow> P (applyPreset p ps)"
    and other: "\<And>s e. P (params s) \<Longrightarrow> good e \<Longrightarrow> P (params (handle s e)) \<or> (\<exists>i. e = PresetButton i)"
  shows "sim_inv P ok s \<Longrightarrow> list_all (loads ok) es \<Longrightarrow> list_all good es \<Longrightarrow>
    sim_inv P ok (run s es) \<and> list_all P (sent s es)"
proof (induction es arbitrary: s)
  case Nil
  then show ?case by simp
next
  case (Cons e es)
  from Cons.prems have inv': "sim_inv P ok (handle s e)"
    by (intro handle_sim_inv [where good = good] preset other) simp_all
  have "list_all P (requests s e)"
    using Cons.prems(1) by (cases e) (simp_all add: sim_inv_def)
  with Cons.IH [OF inv'] Cons.prems show ?case by simp
qed

lemma initial_sim_inv: "P initial_parameters \<Longrightarrow> sim_inv P ok initial_simulator"
  by (simp add: sim_inv_def initial_simulator_def)

lemma applyPreset_days: "preset_days_ok p \<Longrightarrow> days_ok ps \<Longrightarrow> days_ok (applyPreset p ps)"
  by (auto simp: applyPreset_def preset_days_ok_def days_ok_def override_def Let_def
      split: option.splits)

lemma handle_days: "days_ok (params s) \<Longrightarrow> days_ok (params (handle s e)) \<or> (\<exists>i. e = PresetButton i)"
  by (cases e) (simp_all add: days_ok_def resetParameters_def initial_parameters_def)

lemma session_loads:
  "list_all (loads preset_days_ok) session"
  "list_all (loads preset_percent_ok) session"
  "list_all (loads preset_one_time_ok) session"
  "list_all entry_nonneg session"
  by (simp_all add: session_def cost_cutting_def preset_days_ok_def preset_percent_ok_def
      preset_one_time_ok_def percent_ok_def)

lemma session_sent:
  "map days_ahead (sent initial_simulator session) = [90, 90, 90]"
  by (simp add: session_def initial_simulator_def initial_parameters_def cost_cutting_def
      applyPreset_def override_def resetParameters_def)

lemma sent_days_90:
  "days_ahead (params s) = 90 \<Longrightarrow> list_all (\<lambda>e. \<not> preset_button e) es \<Longrightarrow>
   list_all (\<lambda>p. days_ahead p = 90) (sent s es)"
proof (induction es arbitrary: s)
  case Nil
  then show ?case by simp
next
  case (Cons e es)
  from Cons.prems have keep: "days_ahead (params (handle s e)) = 90"
    by (cases e) (simp_all add: resetParameters_def initial_parameters_def)
  have "list_all (\<lambda>p. days_ahead p = 90) (requests s e)"
    using Cons.prems(1) by (cases e) simp_all
  with Cons.IH [OF keep] Cons.prems(2) show ?case by simp
qed

text \<open>
  Claim C5, as amended. Every simulation request sent, from the initial state and after any
  sequence of slider and input changes, preset applications and resets, carries a
  \<open>days_ahead\<close> that is strictly positive and at most 365, provided that every preset a
  button can apply either carries no \<open>days_ahead\<close> or carries a number within that
  range. A slider or input change leaves \<open>days_ahead\<close> as it is and a reset sets it to
  90, so that as long as no preset button is clicked every request carries 90.
\<close>

theorem days_ahead_sent_bounded:
  "(list_all (loads preset_days_ok) es \<longrightarrow>
      list_all (\<lambda>p. 0 < days_ahead p \<and> days_ahead p \<le> 365) (sent initial_simulator es))
   \<and> (list_all (\<lambda>e. \<not> preset_button e) es \<longrightarrow>
      list_all (\<lambda>p. days_ahead p = 90) (sent initial_simulator es))
   \<and> days_ahead (params (handle s (RevenueSlider k))) = days_ahead (params s)
   \<and> days_ahead (params (handle s (ExpenseSlider k))) = days_ahead (params s)
   \<and> days_ahead (params (handle s (OneTimeIncomeInput txt))) = days_ahead (params s)
   \<and> days_ahead (params (handle s (OneTimeExpenseInput txt))) = days_ahead (params s)
   \<and> days_ahead (params (handle s ResetButton)) = 90"
proof -
  have bounded: "list_all (\<lambda>p. 0 < days_ahead p \<and> days_ahead p \<le> 365) (sent initial_simulator es)"
    if loaded: "list_all (loads preset_days_ok) es"
  proof -
    have "sim_inv days_ok preset_days_ok initial_simulator"
      by (rule initial_sim_inv) (simp add: days_ok_def initial_parameters_def)
    moreover have "list_all (\<lambda>e. True) es"
      by (simp add: list_all_iff)
    ultimately have "list_all days_ok (sent initial_simulator es)"
      using run_sim_inv [where P = days_ok and ok = preset_days_ok and good = "\<lambda>e. True"]
        applyPreset_days handle_days loaded by blast
    then show ?thesis by (simp add: days_ok_def [abs_def])
  qed
  have ninety: "list_all (\<lambda>p. days_ahead p = 90) (sent initial_simulator es)"
    if "list_all (\<lambda>e. \<not> preset_button e) es"
    using that by (intro sent_days_90) (simp_all add: initial_simulator_def initial_parameters_def)
  have reset: "days_ahead (params (handle s ResetButton)) = 90"
    by (simp add: resetParameters_def initial_parameters_def)
  from bounded ninety reset show ?thesis
    by simp
qed

theorem days_ahead_sent_bounded_witness:
  "list_all (loads preset_days_ok) session
   \<and> list_all (\<lambda>p. 0 < days_ahead p \<and> days_ahead p \<le> 365) (sent initial_simulator session)
   \<and> map days_ahead (sent initial_simulator session) = [90, 90, 90]
   \<and> list_all (\<lambda>e. \<not> preset_button e) (take 4 session)
   \<and> list_all (\<lambda>p. days_ahead p = 90) (sent initial_simulator (take 4 session))
   \<and> length (sent initial_simulator (take 4 session)) = 1"
proof -
  have quiet: "list_all (\<lambda>e. \<not> preset_button e) (take 4 session)"
    by (simp add: session_def)
  have one: "length (sent initial_simulator (take 4 session)) = 1"
    by (simp add: session_def)
  from days_ahead_sent_bounded [of session] days_ahead_sent_bounded [of "take 4 session"]
    session_loads(1) session_sent quiet one
  show ?thesis by blast
qed

text \<open>
  Claim C5 as stated fails: the component applies whatever a preset carries. After a preset
  with \<open>days_ahead = 730\<close> is loaded and its button clicked, the request sent carries 730.
\<close>

theorem days_ahead_preset_counterexample:
  "map days_ahead (sent initial_simulator
      [PresetsLoaded [two_year_outlook], PresetButton 0, RunSimulationButton]) = [730]
   \<and> \<not> (730 :: real) \<le> 365"
  by (simp add: initial_simulator_def initial_parameters_def two_year_outlook_def
        applyPreset_def override_def)

lemma applyPreset_percents:
  "preset_percent_ok p \<Longrightarrow> percents_ok ps \<Longrightarrow> percents_ok (applyPreset p ps)"
  by (auto simp: applyPreset_def preset_percent_ok_def percents_ok_def override_def Let_def
      split: option.splits)

lemma handle_percents:
  "percents_ok (params s) \<Longrightarrow> percents_ok (params (handle s e)) \<or> (\<exists>i. e = PresetButton i)"
  by (cases e)
    (simp_all add: percents_ok_def slider_value_bounds resetParameters_def initial_parameters_def
      percent_ok_def [of 0])

text \<open>
  Claim C6, as amended. In every parameter state reached from the initial one,
  \<open>revenue_change_percent\<close> and \<open>expense_change_percent\<close> lie within \<open>[-50, 100]\<close>,
  provided that every preset a button can apply either leaves the two percentages alone or
  sets them within that interval. The sliders alone never leave it.
\<close>

theorem percent_parameters_bounded:
  assumes "list_all (loads preset_percent_ok) es"
  shows "- 50 \<le> revenue_change_percent (params (run initial_simulator es)) \<and>
         revenue_change_percent (params (run initial_simulator es)) \<le> 100 \<and>
         - 50 \<le> expense_change_percent (params (run initial_simulator es)) \<and>
         expense_change_percent (params (run initial_simulator es)) \<le> 100"
proof -
  have "sim_inv percents_ok preset_percent_ok initial_simulator"
    by (rule initial_sim_inv) (simp add: percents_ok_def percent_ok_def initial_parameters_def)
  moreover have "list_all (\<lambda>e. True) es"
    by (simp add: list_all_iff)
  ultimately have "sim_inv percents_ok preset_percent_ok (run initial_simulator es)"
    using run_sim_inv [where P = percents_ok and ok = preset_percent_ok and good = "\<lambda>e. True"]
      applyPreset_percents handle_percents assms by blast
  then show ?thesis by (simp add: sim_inv_def percents_ok_def percent_ok_def)
qed

theorem percent_parameters_bounded_witness:
  "list_all (loads preset_percent_ok) (take 6 session)
   \<and> revenue_change_percent (params (run initial_simulator (take 6 session))) = 0
   \<and> expense_change_percent (params (run initial_simulator (take 6 session))) = - 35
   \<and> - 50 \<le> revenue_change_percent (params (run initial_simulator (take 6 session)))
   \<and> revenue_change_percent (params (run initial_simulator (take 6 session))) \<le> 100
   \<and> - 50 \<le> expense_change_percent (params (run initial_simulator (take 6 session)))
   \<and> expense_change_percent (params (run initial_simulator (take 6 session))) \<le> 100"
proof -
  have h: "list_all (loads preset_percent_ok) (take 6 session)"
    by (simp add: session_def cost_cutting_def preset_percent_ok_def percent_ok_def)
  have v: "revenue_change_percent (params (run initial_simulator (take 6 session))) = 0"
    "expense_change_percent (params (run initial_simulator (take 6 session))) = - 35"
    by (simp_all add: session_def initial_simulator_def initial_parameters_def cost_cutting_def
        applyPreset_def override_def slider_value_def range_value_def)
  from percent_parameters_bounded [OF h] h v show ?thesis
    by blast
qed

text \<open>
  Claim C6 as stated fails: a preset with a revenue change of 200 percent, once loaded and
  applied, puts \<open>revenue_change_percent\<close> at 200.
\<close>

theorem percent_preset_counterexample:
  "revenue_change_percent (params (run initial_simulator
      [PresetsLoaded [hypergrowth], PresetButton 0])) = 200 \<and> \<not> (200 :: real) \<le> 100"
  by (simp add: initial_simulator_def initial_parameters_def hypergrowth_def
        applyPreset_def override_def)

lemma applyPreset_one_time:
  "preset_one_time_ok p \<Longrightarrow> one_time_ok ps \<Longrightarrow> one_time_ok (applyPreset p ps)"
  by (auto simp: applyPreset_def preset_one_time_ok_def one_time_ok_def override_def Let_def
      split: option.splits)

lemma handle_one_time:
  "one_time_ok (params s) \<Longrightarrow> entry_nonneg e \<Longrightarrow>
   one_time_ok (params (handle s e)) \<or> (\<exists>i. e = PresetButton i)"
  by (cases e)
    (auto simp: one_time_ok_def number_or_zero_eq resetParameters_def initial_parameters_def
      split: option.splits)

text \<open>
  Claim C7, as amended. Each one-time field stores the number entered, whatever its sign,
  and 0 for an empty or unreadable entry. In every parameter state reached from the
  initial one, \<open>one_time_income\<close> and \<open>one_time_expense\<close> are at least 0, provided that no
  negative number was entered in either field and that every preset a button can apply
  either leaves the two amounts alone or sets them to at least 0.
\<close>

theorem one_time_nonneg:
  "(list_all (loads preset_one_time_ok) es \<and> list_all entry_nonneg es \<longrightarrow>
      0 \<le> one_time_income (params (run initial_simulator es)) \<and>
      0 \<le> one_time_expense (params (run initial_simulator es)))
   \<and> one_time_income (params (handle s (OneTimeIncomeInput (Some a)))) = a
   \<and> one_time_income (params (handle s (OneTimeIncomeInput None))) = 0
   \<and> one_time_expense (params (handle s (OneTimeExpenseInput (Some a)))) = a
   \<and> one_time_expense (params (handle s (OneTimeExpenseInput None))) = 0"
proof -
  have nonneg: "0 \<le> one_time_income (params (run initial_simulator es)) \<and>
      0 \<le> one_time_expense (params (run initial_simulator es))"
    if h: "list_all (loads preset_one_time_ok) es" "list_all entry_nonneg es"
  proof -
    have "sim_inv one_time_ok preset_one_time_ok initial_simulator"
      by (rule initial_sim_inv) (simp add: one_time_ok_def initial_parameters_def)
    then have "sim_inv one_time_ok preset_one_time_ok (run initial_simulator es)"
      using run_sim_inv [where P = one_time_ok and ok = preset_one_time_ok and good = entry_nonneg]
        applyPreset_one_time handle_one_time h by blast
    then show ?thesis by (simp add: sim_inv_def one_time_ok_def)
  qed
  have stored: "number_or_zero (Some a) = a" "number_or_zero None = 0"
    by (simp_all add: number_or_zero_eq)
  from nonneg stored show ?thesis
    by simp
qed

theorem one_time_nonneg_witness:
  "list_all (loads preset_one_time_ok) (take 3 session)
   \<and> list_all entry_nonneg (take 3 session)
   \<and> one_time_income (params (run initial_simulator (take 3 session))) = 2500
   \<and> 0 \<le> one_time_income (params (run initial_simulator (take 3 session)))
   \<and> 0 \<le> one_time_expense (params (run initial_simulator (take 3 session)))
   \<and> one_time_income (params (handle initial_simulator (OneTimeIncomeInput (Some (- 500))))) = - 500
   \<and> one_time_income (params (handle initial_simulator (OneTimeIncomeInput None))) = 0
   \<and> one_time_expense (params (handle initial_simulator (OneTimeExpenseInput (Some (- 500))))) = - 500
   \<and> one_time_expense (params (handle initial_simulator (OneTimeExpenseInput None))) = 0"
proof -
  have h: "list_all (loads preset_one_time_ok) (take 3 session)"
    "list_all entry_nonneg (take 3 session)"
    by (simp_all add: session_def cost_cutting_def preset_one_time_ok_def)
  have v: "one_time_income (params (run initial_simulator (take 3 session))) = 2500"
    by (simp add: session_def initial_simulator_def initial_parameters_def number_or_zero_eq)
  from one_time_nonneg [of "take 3 session" initial_simulator "- 500"] h v show ?thesis
    by blast
qed

text \<open>
  Claim C7 as stated fails: the number fields have no lower bound. An entry of -500 in the
  one-time income field is stored as -500, and an entry of -75 in the one-time expense
  field is stored as -75.
\<close>

theorem one_time_negative_counterexample:
  "one_time_income (params (run initial_simulator [OneTimeIncomeInput (Some (- 500))])) = - 500
   \<and> \<not> (0 :: real) \<le> - 500
   \<and> one_time_expense (params (run initial_simulator [OneTimeExpenseInput (Some (- 75))])) = - 75
   \<and> \<not> (0 :: real) \<le> - 75"
  by (simp add: initial_simulator_def initial_parameters_def number_or_zero_eq)


subsection \<open>Transactions page\<close>

text \<open>
  Claim C4. A transaction row of the table offers the delete button exactly when the
  transaction is manual, that is, has no Xero id. A row offers no other button, its button
  can only delete that row's transaction, and the row of a synced transaction has no button
  at all.
\<close>

theorem delete_offered_iff_manual:
  assumes "TransactionRow t buttons \<in> set (tbody loading transactions)"
  shows "t \<in> set transactions
    \<and> (DeleteButton (tid t) \<in> set buttons \<longleftrightarrow> is_manual t)
    \<and> (\<forall>b \<in> set buttons. \<forall>confirmed succeeded.
          set (click confirmed succeeded b) \<subseteq> {ApiDelete (tid t), ApiGetAll})
    \<and> (\<not> is_manual t \<longrightarrow> buttons = [])"
proof -
  from assms have "\<not> loading"
    by (auto simp: tbody_def)
  with assms have t: "t \<in> set transactions" and b: "buttons = actions_cell t"
    by (auto simp: tbody_def split: if_splits)
  have m: "is_manual t \<longleftrightarrow> \<not> truthy_string (xero_id t)"
    by (cases "xero_id t") (simp_all add: is_manual_def)
  show ?thesis
    using t by (simp add: b m actions_cell_def deleteTransaction_def)
qed

theorem delete_offered_iff_manual_witness:
  "tbody False [rent, invoice] =
     [TransactionRow rent [DeleteButton 1], TransactionRow invoice []]
   \<and> is_manual rent \<and> \<not> is_manual invoice"
proof -
  have rows: "tbody False [rent, invoice] =
     [TransactionRow rent [DeleteButton 1], TransactionRow invoice []]"
    by (simp add: tbody_def actions_cell_def rent_def invoice_def)
  then have "TransactionRow rent [DeleteButton 1] \<in> set (tbody False [rent, invoice])"
    and "TransactionRow invoice [] \<in> set (tbody False [rent, invoice])"
    by simp_all
  from delete_offered_iff_manual [OF this(1)] delete_offered_iff_manual [OF this(2)] rows
  show ?thesis by (simp add: rent_def)
qed

text \<open>
  Claim C8, as amended. For a transaction submitted through the add-transaction form with
  the number \<open>a\<close> entered as amount, the amount submitted is \<open>- a\<close> when the type is
  expense and \<open>a\<close> when it is income, and the type is submitted as selected. For a
  positive entry the submitted amount is positive for income and negative for an expense;
  for a negative entry it is the other way round.
\<close>

theorem addTransaction_signed_amount:
  assumes "addTransaction form = Inr d" and "n_amount form = Some a"
  shows "(n_type form = ''expense'' \<longrightarrow> d_amount d = Num (- a))
    \<and> (n_type form = ''income'' \<longrightarrow> d_amount d = Num a)
    \<and> d_type d = n_type form
    \<and> (0 < a \<and> n_type form = ''income'' \<longrightarrow> (\<exists>x. d_amount d = Num x \<and> 0 < x))
    \<and> (0 < a \<and> n_type form = ''expense'' \<longrightarrow> (\<exists>x. d_amount d = Num x \<and> x < 0))
    \<and> (a < 0 \<and> n_type form = ''income'' \<longrightarrow> (\<exists>x. d_amount d = Num x \<and> x < 0))
    \<and> (a < 0 \<and> n_type form = ''expense'' \<longrightarrow> (\<exists>x. d_amount d = Num x \<and> 0 < x))"
  using assms
  by (auto simp: addTransaction_def toISOString_def parseFloat_def Let_def
      split: option.splits)

theorem addTransaction_signed_amount_witness:
  "addTransaction coffee_form =
     Inr \<lparr>d_date = ''2024-02-01T00:00:00.000Z'', d_description = ''Coffee'', d_amount = Num (- 12.5),
          d_type = ''expense'', d_category = [], d_account_name = [],
          d_contact_name = []\<rparr>
   \<and> n_amount coffee_form = Some 12.5 \<and> n_type coffee_form = ''expense''
   \<and> n_amount refund_form = Some (- 5) \<and> n_type refund_form = ''expense''
   \<and> (\<exists>d. addTransaction refund_form = Inr d \<and> d_amount d = Num 5 \<and> d_type d = ''expense'')"
proof -
  have "\<exists>d. addTransaction coffee_form = Inr d"
    by (simp add: addTransaction_def toISOString_def coffee_form_def)
  then obtain d where d: "addTransaction coffee_form = Inr d" ..
  have a: "n_amount coffee_form = Some 12.5" and ty: "n_type coffee_form = ''expense''"
    by (simp_all add: coffee_form_def)
  from addTransaction_signed_amount [OF d a] ty have "d_amount d = Num (- 12.5)"
    by simp
  with d have coffee: "addTransaction coffee_form =
     Inr \<lparr>d_date = ''2024-02-01T00:00:00.000Z'', d_description = ''Coffee'', d_amount = Num (- 12.5),
          d_type = ''expense'', d_category = [], d_account_name = [],
          d_contact_name = []\<rparr>"
    by (auto simp: addTransaction_def toISOString_def coffee_form_def parseFloat_def Let_def)
  have "\<exists>d. addTransaction refund_form = Inr d"
    by (simp add: addTransaction_def toISOString_def refund_form_def)
  then obtain d' where d': "addTransaction refund_form = Inr d'" ..
  have a': "n_amount refund_form = Some (- 5)" and ty': "n_type refund_form = ''expense''"
    by (simp_all add: refund_form_def)
  from addTransaction_signed_amount [OF d' a'] ty'
  have "d_amount d' = Num 5" and "d_type d' = ''expense''"
    by simp_all
  with d' have "\<exists>d. addTransaction refund_form = Inr d \<and> d_amount d = Num 5 \<and> d_type d = ''expense''"
    by blast
  with coffee a ty a' ty' show ?thesis
    by blast
qed

text \<open>
  Claim C8 as stated fails in its second half: the amount field accepts a negative number.
  With -5 entered and the type expense, the amount submitted is 5: a positive amount that
  stands for an expense.
\<close>

theorem addTransaction_negative_entry_counterexample:
  "addTransaction refund_form =
     Inr \<lparr>d_date = ''2024-02-03T00:00:00.000Z'', d_description = ''Refund'', d_amount = Num 5,
          d_type = ''expense'', d_category = [], d_account_name = [],
          d_contact_name = []\<rparr>
   \<and> n_amount refund_form = Some (- 5) \<and> n_type refund_form = ''expense''
   \<and> (0 :: real) < 5"
  by (simp add: addTransaction_def toISOString_def refund_form_def parseFloat_def)


subsection \<open>API client\<close>

text \<open>
  Claim C9. For a response with status 401 the response interceptor removes the token
  from localStorage, sends the browser to \<^verbatim>\<open>/login\<close> and still rejects with the error
  that holds the response. A response with any other status, an error with any other
  status and an error without a response pass through unchanged, and the browser state
  is left as it was.
\<close>

theorem response_interceptor_401:
  "(status r = 401 \<longrightarrow>
      response_interceptor b (settle r) =
        (b\<lparr>localStorage := (localStorage b)(''token'' := None), location_href := ''/login''\<rparr>,
         settle r)
      \<and> (\<exists>e. settle r = Rejected e \<and> err_response e = Some r))
   \<and> (status r \<noteq> 401 \<longrightarrow> response_interceptor b (settle r) = (b, settle r))
   \<and> (response_status e \<noteq> Some 401 \<longrightarrow> response_interceptor b (Rejected e) = (b, Rejected e))
   \<and> response_interceptor b (Fulfilled r) = (b, Fulfilled r)"
  by (auto simp: settle_def on_response_def on_response_error_def response_status_def)

theorem response_interceptor_401_witness:
  "localStorage signed_in ''token'' = Some ''abc''
   \<and> localStorage (fst (response_interceptor signed_in (settle \<lparr>status = 401, data = JNull\<rparr>)))
       ''token'' = None
   \<and> location_href (fst (response_interceptor signed_in (settle \<lparr>status = 401, data = JNull\<rparr>)))
       = ''/login''
   \<and> snd (response_interceptor signed_in (settle \<lparr>status = 401, data = JNull\<rparr>))
       = Rejected \<lparr>err_response = Some \<lparr>status = 401, data = JNull\<rparr>,
                   err_message = ''Request failed with status code''\<rparr>
   \<and> response_interceptor signed_in (settle \<lparr>status = 404, data = JNull\<rparr>)
       = (signed_in, settle \<lparr>status = 404, data = JNull\<rparr>)
   \<and> response_interceptor signed_in (settle \<lparr>status = 200, data = JNull\<rparr>)
       = (signed_in, Fulfilled \<lparr>status = 200, data = JNull\<rparr>)"
  using response_interceptor_401 [of "\<lparr>status = 401, data = JNull\<rparr>" signed_in]
    response_interceptor_401 [of "\<lparr>status = 404, data = JNull\<rparr>" signed_in]
    response_interceptor_401 [of "\<lparr>status = 200, data = JNull\<rparr>" signed_in]
  by (simp add: signed_in_def settle_def)


subsection \<open>AuthContext\<close>

text \<open>
  Claim C10. \<^verbatim>\<open>getXeroStatus\<close> never throws: it returns the body of the response when
  the request succeeds and \<^verbatim>\<open>{ is_connected: false }\<close> when the request fails.
\<close>

theorem getXeroStatus_never_throws:
  "(\<exists>v. getXeroStatus settled = Inr v)
   \<and> getXeroStatus (Fulfilled r) = Inr (data r)
   \<and> getXeroStatus (Rejected e) = Inr (JObj [(''is_connected'', JBool False)])"
  by (cases settled) (simp_all add: getXeroStatus_def try_catch_def)

theorem getXeroStatus_never_throws_witness:
  "getXeroStatus (settle \<lparr>status = 200, data = JObj [(''is_connected'', JBool True)]\<rparr>)
     = Inr (JObj [(''is_connected'', JBool True)])
   \<and> getXeroStatus (settle \<lparr>status = 500, data = JNull\<rparr>)
     = Inr (JObj [(''is_connected'', JBool False)])"
  using getXeroStatus_never_throws
    [of "Fulfilled \<lparr>status = 200, data = JObj [(''is_connected'', JBool True)]\<rparr>"
        "\<lparr>status = 200, data = JObj [(''is_connected'', JBool True)]\<rparr>"
        "\<lparr>err_response = Some \<lparr>status = 500, data = JNull\<rparr>,
          err_message = ''Request failed with status code''\<rparr>"]
  by (simp add: settle_def)

end
